theory Spec2Isabelle
  imports Main
begin

section \<open>Python values\<close>

text \<open>
  A Python \<open>str\<close> is a sequence of Unicode code points and a \<open>bytes\<close> object a sequence
  of values below 256; both are lists of naturals here.  \<open>asc\<close> embeds an ASCII literal of
  the source; a character outside ASCII is written by its code point (\<open>227\<close> is the
  a-tilde of the Portuguese messages, \<open>225\<close> the a-acute, \<open>39\<close> the apostrophe).
\<close>

type_synonym pystr = "nat list"
type_synonym bytes = "nat list"

definition asc :: "string \<Rightarrow> pystr" where
  "asc s = map of_char s"

text \<open>
  An exception is its class name and the text \<open>str(e)\<close> that an f-string \<open>{e}\<close>
  interpolates.
\<close>

datatype exn = Exn (exn_class: string) (exn_str: pystr)

text \<open>JSON-shaped values: the dictionaries and lists the tools return.\<close>

datatype jval =
    JNull
  | JBool bool
  | JInt int
  | JStr pystr
  | JList "jval list"
  | JObj "(pystr \<times> jval) list"

fun keys :: "jval \<Rightarrow> pystr list" where
  "keys (JObj kvs) = map fst kvs"
| "keys _ = []"

fun get_key :: "jval \<Rightarrow> pystr \<Rightarrow> jval option" where
  "get_key (JObj kvs) k = map_of kvs k"
| "get_key _ k = None"

text \<open>\<open>%d\<close> and \<open>%02x\<close> formatting, used by the texts of the decoding errors.\<close>

fun dec_digits :: "nat \<Rightarrow> pystr" where
  "dec_digits n = (if n < 10 then [48 + n] else dec_digits (n div 10) @ [48 + n mod 10])"

declare dec_digits.simps [simp del]

definition hex_digit :: "nat \<Rightarrow> nat" where
  "hex_digit d = (if d < 10 then 48 + d else 87 + d)"

definition hex2 :: "nat \<Rightarrow> pystr" where
  "hex2 b = [hex_digit (b div 16 mod 16), hex_digit (b mod 16)]"

section \<open>The library decoders used by \<open>_extract_body\<close>\<close>

text \<open>
  \<open>base64.urlsafe_b64decode(s)\<close> on a \<open>str\<close>: the string is encoded as ASCII
  (\<open>ValueError\<close> otherwise), \<open>-\<close> and \<open>_\<close> are translated to \<open>+\<close> and \<open>/\<close>, and
  \<open>binascii.a2b_base64\<close> decodes it in its default, non-strict mode: a character outside
  the alphabet is skipped, a pad that completes a quad ends the decoding, and input that
  ends inside a quad is an error.
\<close>

definition b64_value :: "nat \<Rightarrow> nat option" where
  "b64_value c =
     (if 65 \<le> c \<and> c \<le> 90 then Some (c - 65)
      else if 97 \<le> c \<and> c \<le> 122 then Some (c - 71)
      else if 48 \<le> c \<and> c \<le> 57 then Some (c + 4)
      else if c = 43 then Some 62
      else if c = 47 then Some 63
      else None)"

definition urlsafe_translate :: "nat \<Rightarrow> nat" where
  "urlsafe_translate c = (if c = 45 then 43 else if c = 95 then 47 else c)"

definition binascii_error_length :: "nat \<Rightarrow> exn" where
  "binascii_error_length n =
     Exn ''binascii.Error''
       (asc ''Invalid base64-encoded string: number of data characters ('' @ dec_digits n
        @ asc '') cannot be 1 more than a multiple of 4'')"

definition binascii_error_padding :: exn where
  "binascii_error_padding = Exn ''binascii.Error'' (asc ''Incorrect padding'')"

text \<open>
  The loop of \<open>a2b_base64\<close> with its variables \<open>quad_pos\<close>, \<open>leftchar\<close>, \<open>pads\<close>
  and the bytes written so far.  \<open>leftchar\<close> holds fewer than 6, 4 and 2 bits in the three
  positions, so the shifts and masks of the C code are products, quotients and remainders
  that stay below 256.
\<close>

fun a2b_base64 :: "bytes \<Rightarrow> nat \<Rightarrow> nat \<Rightarrow> nat \<Rightarrow> bytes \<Rightarrow> exn + bytes" where
  "a2b_base64 [] quad_pos leftchar pads out =
     (if quad_pos \<noteq> 0 then
        (if quad_pos = 1 then Inl (binascii_error_length (length out div 3 * 4 + 1))
         else Inl binascii_error_padding)
      else Inr out)"
| "a2b_base64 (this_ch # rest) quad_pos leftchar pads out =
     (if this_ch = 61 then
        (if 2 \<le> quad_pos \<and> 4 \<le> quad_pos + (pads + 1) then Inr out
         else a2b_base64 rest quad_pos leftchar (if 2 \<le> quad_pos then pads + 1 else pads) out)
      else
        (case b64_value this_ch of
           None \<Rightarrow> a2b_base64 rest quad_pos leftchar pads out
         | Some v \<Rightarrow>
             (if quad_pos = 0 then a2b_base64 rest 1 v 0 out
              else if quad_pos = 1 then
                a2b_base64 rest 2 (v mod 16) 0 (out @ [leftchar * 4 + v div 16])
              else if quad_pos = 2 then
                a2b_base64 rest 3 (v mod 4) 0 (out @ [leftchar * 16 + v div 4])
              else a2b_base64 rest 0 0 0 (out @ [leftchar * 64 + v]))))"

definition urlsafe_b64decode :: "pystr \<Rightarrow> exn + bytes" where
  "urlsafe_b64decode s =
     (if list_ex (\<lambda>c. 128 \<le> c) s then
        Inl (Exn ''ValueError'' (asc ''string argument should contain only ASCII characters''))
      else a2b_base64 (map urlsafe_translate s) 0 0 0 [])"

text \<open>
  \<open>bytes.decode('utf-8')\<close> with the default strict error handling: shortest-form
  sequences of one to four bytes, no surrogates, nothing above U+10FFFF.  An error names
  the offending byte range \<open>start..end-1\<close> and a reason.
\<close>

definition unicode_decode_error :: "bytes \<Rightarrow> nat \<Rightarrow> nat \<Rightarrow> string \<Rightarrow> exn" where
  "unicode_decode_error bs start end reason =
     Exn ''UnicodeDecodeError''
       ([39] @ asc ''utf-8'' @ [39] @ asc '' codec can't decode ''
        @ (if end = start + 1
           then asc ''byte 0x'' @ hex2 (hd bs) @ asc '' in position '' @ dec_digits start
           else asc ''bytes in position '' @ dec_digits start @ asc ''-'' @ dec_digits (end - 1))
        @ asc '': '' @ asc reason)"

definition is_continuation :: "nat \<Rightarrow> bool" where
  "is_continuation b = (128 \<le> b \<and> b < 192)"

text \<open>
  The test on the second byte of a sequence: it must be a continuation byte, and after
  the lead bytes \<open>0xE0\<close>, \<open>0xED\<close>, \<open>0xF0\<close> and \<open>0xF4\<close> its range is narrower
  (no overlong form, no surrogate, nothing above U+10FFFF).
\<close>

definition bad_second :: "nat \<Rightarrow> nat \<Rightarrow> bool" where
  "bad_second ch ch2 =
     (if is_continuation ch2 then
        (if ch < 224 then False
         else if ch < 240 then (if ch2 < 160 then ch = 224 else ch = 237)
         else (if ch2 < 144 then ch = 240 else ch = 244))
      else True)"

fun utf8_decode :: "bytes \<Rightarrow> nat \<Rightarrow> pystr \<Rightarrow> exn + pystr" where
  "utf8_decode [] pos acc = Inr acc"
| "utf8_decode (ch # rest) pos acc =
     (let bs = ch # rest; eof = pos + length bs in
      if ch < 128 then utf8_decode rest (pos + 1) (acc @ [ch])
      else if ch < 194 \<or> 245 \<le> ch then
        Inl (unicode_decode_error bs pos (pos + 1) ''invalid start byte'')
      else
        (case rest of
           [] \<Rightarrow> Inl (unicode_decode_error bs pos eof ''unexpected end of data'')
         | ch2 # rest2 \<Rightarrow>
             if bad_second ch ch2
             then Inl (unicode_decode_error bs pos (pos + 1) ''invalid continuation byte'')
             else if ch < 224 then
               utf8_decode rest2 (pos + 2) (acc @ [ch mod 32 * 64 + ch2 mod 64])
             else
               (case rest2 of
                  [] \<Rightarrow> Inl (unicode_decode_error bs pos eof ''unexpected end of data'')
                | ch3 # rest3 \<Rightarrow>
                    if is_continuation ch3 then
                      (if ch < 240 then
                         utf8_decode rest3 (pos + 3)
                           (acc @ [ch mod 16 * 4096 + ch2 mod 64 * 64 + ch3 mod 64])
                       else
                         (case rest3 of
                            [] \<Rightarrow>
                              Inl (unicode_decode_error bs pos eof ''unexpected end of data'')
                          | ch4 # rest4 \<Rightarrow>
                              if is_continuation ch4 then
                                utf8_decode rest4 (pos + 4)
                                  (acc @ [ch mod 8 * 262144 + ch2 mod 64 * 4096
                                          + ch3 mod 64 * 64 + ch4 mod 64])
                              else
                                Inl (unicode_decode_error bs pos (pos + 3)
                                       ''invalid continuation byte'')))
                    else
                      Inl (unicode_decode_error bs pos (pos + 2)
                             ''invalid continuation byte''))))"

definition decode_utf8 :: "bytes \<Rightarrow> exn + pystr" where
  "decode_utf8 bs = utf8_decode bs 0 []"

text \<open>
  \<open>str.strip()\<close> without argument removes the characters for which \<open>str.isspace\<close>
  holds from both ends.
\<close>

definition isspace :: "nat \<Rightarrow> bool" where
  "isspace c =
     ((9 \<le> c \<and> c \<le> 13) \<or> (28 \<le> c \<and> c \<le> 32) \<or> c = 133 \<or> c = 160 \<or> c = 5760
      \<or> (8192 \<le> c \<and> c \<le> 8202) \<or> c = 8232 \<or> c = 8233 \<or> c = 8239 \<or> c = 8287
      \<or> c = 12288)"

definition strip :: "pystr \<Rightarrow> pystr" where
  "strip s = rev (dropWhile isspace (rev (dropWhile isspace s)))"

section \<open>Messages of the mail API\<close>

text \<open>
  The resources the code reads, typed as the mail API documents them.  A key the code
  reads with \<open>in\<close> or \<open>.get\<close> may be absent and is an option; a key it indexes directly
  (\<open>mimeType\<close>, \<open>body\<close>, \<open>name\<close>, \<open>value\<close>, \<open>payload\<close>, \<open>threadId\<close>, \<open>id\<close>) is
  always there.
\<close>

record header =
  name :: pystr
  "value" :: pystr

record part_body =
  data :: "pystr option"

datatype part =
  Part (mimeType: pystr) (headers: "header list option") (body: part_body)
       (parts: "part list option")

record message =
  payload :: part
  threadId :: pystr
  snippet :: "pystr option"
  labelIds :: "pystr list option"

section \<open>\<open>_extract_body\<close>\<close>

definition b64_utf8 :: "pystr \<Rightarrow> exn + pystr" where
  "b64_utf8 d = (case urlsafe_b64decode d of Inl e \<Rightarrow> Inl e | Inr bs \<Rightarrow> decode_utf8 bs)"

text \<open>
  \<open>extract_parts ps b\<close> is the \<open>for part in payload['parts']\<close> loop with \<open>b\<close> the
  current value of the variable \<open>body\<close>; it returns the value of \<open>body\<close> when the loop
  is left, by \<open>break\<close> or at the end of the list.  An exception of a decoder leaves the
  function.  \<open>_extract_body\<close> returns \<open>body.strip()\<close>.
\<close>

fun extract_body :: "part \<Rightarrow> exn + pystr"
  and extract_parts :: "part list \<Rightarrow> pystr \<Rightarrow> exn + pystr" where
  "extract_body (Part mt hs bd (Some ps)) =
     (case extract_parts ps [] of Inl e \<Rightarrow> Inl e | Inr b \<Rightarrow> Inr (strip b))"
| "extract_body (Part mt hs bd None) =
     (if mt = asc ''text/plain'' then
        (case data bd of
           Some d \<Rightarrow> (case b64_utf8 d of Inl e \<Rightarrow> Inl e | Inr b \<Rightarrow> Inr (strip b))
         | None \<Rightarrow> Inr (strip []))
      else Inr (strip []))"
| "extract_parts [] b = Inr b"
| "extract_parts (p # rest) b =
     (if mimeType p = asc ''text/plain'' then
        (case data (body p) of
           Some d \<Rightarrow> b64_utf8 d
         | None \<Rightarrow> extract_parts rest b)
      else if parts p \<noteq> None then
        (case extract_body p of
           Inl e \<Rightarrow> Inl e
         | Inr b' \<Rightarrow> if b' \<noteq> [] then Inr b' else extract_parts rest b')
      else extract_parts rest b)"

section \<open>The mail backend and the tool implementations\<close>

text \<open>
  \<open>self.service\<close> is the handle of the external mail API.  Its two calls are functions
  of the request that either raise or return the response:
  \<open>users().messages().list(userId='me', q=..., maxResults=...).execute()\<close> and
  \<open>users().messages().get(userId='me', id=...).execute()\<close>.  \<open>q\<close> is \<open>None\<close> when
  the call passes no query.
\<close>

record msg_ref =
  ref_id :: pystr

record list_response =
  messages :: "msg_ref list option"

record gmail_service =
  messages_list :: "pystr option \<Rightarrow> int \<Rightarrow> exn + list_response"
  messages_get :: "pystr \<Rightarrow> exn + message"

definition users :: "gmail_service option \<Rightarrow> exn + gmail_service" where
  "users svc =
     (case svc of
        None \<Rightarrow> Inl (Exn ''AttributeError''
                       ([39] @ asc ''NoneType'' @ [39] @ asc '' object has no attribute ''
                        @ [39] @ asc ''users'' @ [39]))
      | Some s \<Rightarrow> Inr s)"

definition error_dict :: "pystr \<Rightarrow> jval" where
  "error_dict msg = JObj [(asc ''error'', JStr msg)]"

text \<open>Truth value of a Python object, and \<open>xs[:n]\<close>.\<close>

fun truthy :: "jval \<Rightarrow> bool" where
  "truthy JNull = False"
| "truthy (JBool b) = b"
| "truthy (JInt n) = (n \<noteq> 0)"
| "truthy (JStr s) = (s \<noteq> [])"
| "truthy (JList xs) = (xs \<noteq> [])"
| "truthy (JObj kvs) = (kvs \<noteq> [])"

definition slice_to :: "'a list \<Rightarrow> int \<Rightarrow> 'a list" where
  "slice_to xs n = (if 0 \<le> n then take (nat n) xs else take (nat (int (length xs) + n)) xs)"

text \<open>
  \<open>str.lower()\<close>, on the ASCII letters: no character outside ASCII is lowered to a
  letter of the four header names tested below, so the test is the source's.
\<close>

definition lower :: "pystr \<Rightarrow> pystr" where
  "lower s = map (\<lambda>c. if 65 \<le> c \<and> c \<le> 90 then c + 32 else c) s"

fun collect_headers :: "header list \<Rightarrow> (pystr \<rightharpoonup> pystr) \<Rightarrow> (pystr \<rightharpoonup> pystr)" where
  "collect_headers [] hdrs = hdrs"
| "collect_headers (h # rest) hdrs =
     (let n = lower (name h) in
      if n \<in> set [asc ''from'', asc ''to'', asc ''subject'', asc ''date'']
      then collect_headers rest (hdrs(n \<mapsto> value h))
      else collect_headers rest hdrs)"

definition get_str :: "(pystr \<rightharpoonup> pystr) \<Rightarrow> pystr \<Rightarrow> pystr" where
  "get_str m k = (case m k of None \<Rightarrow> [] | Some v \<Rightarrow> v)"

text \<open>
  The server methods \<open>_get_email_details\<close>, \<open>_get_recent_emails\<close>,
  \<open>_get_unread_emails\<close> and \<open>_search_emails\<close> carry the prefix \<open>srv\<close> here, the
  client has methods of the same names.  Each catches every exception of its body and
  returns an \<open>error\<close> dictionary instead.
\<close>

definition email_dict :: "pystr \<Rightarrow> message \<Rightarrow> (pystr \<rightharpoonup> pystr) \<Rightarrow> pystr \<Rightarrow> jval" where
  "email_dict message_id m hdrs b =
     JObj [(asc ''id'', JStr message_id),
           (asc ''thread_id'', JStr (threadId m)),
           (asc ''from'', JStr (get_str hdrs (asc ''from''))),
           (asc ''to'', JStr (get_str hdrs (asc ''to''))),
           (asc ''subject'', JStr (get_str hdrs (asc ''subject''))),
           (asc ''date'', JStr (get_str hdrs (asc ''date''))),
           (asc ''body'', JStr b),
           (asc ''snippet'', JStr (case snippet m of None \<Rightarrow> [] | Some t \<Rightarrow> t)),
           (asc ''labels'', JList (map JStr (case labelIds m of None \<Rightarrow> [] | Some ls \<Rightarrow> ls)))]"

definition email_details_body :: "gmail_service option \<Rightarrow> pystr \<Rightarrow> exn + jval" where
  "email_details_body svc message_id =
     (case users svc of
        Inl e \<Rightarrow> Inl e
      | Inr s \<Rightarrow>
          (case messages_get s message_id of
             Inl e \<Rightarrow> Inl e
           | Inr m \<Rightarrow>
               (let hdrs = collect_headers
                           (case headers (payload m) of None \<Rightarrow> [] | Some hs \<Rightarrow> hs) Map.empty
                in case extract_body (payload m) of
                     Inl e \<Rightarrow> Inl e
                   | Inr b \<Rightarrow> Inr (email_dict message_id m hdrs b))))"

definition srv_get_email_details :: "gmail_service option \<Rightarrow> pystr \<Rightarrow> jval" where
  "srv_get_email_details svc message_id =
     (case email_details_body svc message_id of
        Inr d \<Rightarrow> d
      | Inl e \<Rightarrow>
          error_dict (asc ''Erro ao buscar email '' @ message_id @ asc '': '' @ exn_str e))"

text \<open>
  The loop \<open>for message in ...: email_data = ...; if email_data and 'error' not in
  email_data: emails.append(email_data)\<close>, with the list \<open>emails\<close> built so far.
\<close>

fun fetch_emails :: "gmail_service option \<Rightarrow> msg_ref list \<Rightarrow> jval list \<Rightarrow> jval list" where
  "fetch_emails svc [] emails = emails"
| "fetch_emails svc (m # rest) emails =
     (let email_data = srv_get_email_details svc (ref_id m) in
      if truthy email_data \<and> asc ''error'' \<notin> set (keys email_data)
      then fetch_emails svc rest (emails @ [email_data])
      else fetch_emails svc rest emails)"

definition listed :: "list_response \<Rightarrow> msg_ref list" where
  "listed result = (case messages result of None \<Rightarrow> [] | Some ms \<Rightarrow> ms)"

definition srv_get_recent_emails :: "gmail_service option \<Rightarrow> int \<Rightarrow> jval" where
  "srv_get_recent_emails svc count =
     (case users svc of
        Inl e \<Rightarrow> error_dict (asc ''Erro ao buscar emails recentes: '' @ exn_str e)
      | Inr s \<Rightarrow>
          (case messages_list s None count of
             Inl e \<Rightarrow> error_dict (asc ''Erro ao buscar emails recentes: '' @ exn_str e)
           | Inr result \<Rightarrow>
               (let emails = fetch_emails svc (slice_to (listed result) count) [] in
                JObj [(asc ''tool'', JStr (asc ''get_recent_emails'')),
                      (asc ''success'', JBool True),
                      (asc ''count'', JInt (int (length emails))),
                      (asc ''emails'', JList emails)])))"

definition srv_get_unread_emails :: "gmail_service option \<Rightarrow> int \<Rightarrow> jval" where
  "srv_get_unread_emails svc count =
     (case users svc of
        Inl e \<Rightarrow> error_dict (asc ''Erro ao buscar emails n'' @ [227] @ asc ''o lidos: '' @ exn_str e)
      | Inr s \<Rightarrow>
          (case messages_list s (Some (asc ''is:unread'')) count of
             Inl e \<Rightarrow>
               error_dict (asc ''Erro ao buscar emails n'' @ [227] @ asc ''o lidos: '' @ exn_str e)
           | Inr result \<Rightarrow>
               (let emails = fetch_emails svc (listed result) [] in
                JObj [(asc ''tool'', JStr (asc ''get_unread_emails'')),
                      (asc ''success'', JBool True),
                      (asc ''count'', JInt (int (length emails))),
                      (asc ''emails'', JList emails)])))"

definition srv_search_emails :: "gmail_service option \<Rightarrow> pystr \<Rightarrow> int \<Rightarrow> jval" where
  "srv_search_emails svc query count =
     (case users svc of
        Inl e \<Rightarrow>
          error_dict (asc ''Erro na busca '' @ [39] @ query @ [39] @ asc '': '' @ exn_str e)
      | Inr s \<Rightarrow>
          (case messages_list s (Some query) count of
             Inl e \<Rightarrow>
               error_dict (asc ''Erro na busca '' @ [39] @ query @ [39] @ asc '': '' @ exn_str e)
           | Inr result \<Rightarrow>
               (let emails = fetch_emails svc (listed result) [] in
                JObj [(asc ''tool'', JStr (asc ''search_emails'')),
                      (asc ''query'', JStr query),
                      (asc ''success'', JBool True),
                      (asc ''count'', JInt (int (length emails))),
                      (asc ''emails'', JList emails)])))"

section \<open>The server: lazy initialisation and \<open>handle_call_tool\<close>\<close>

text \<open>
  \<open>_initialize_gmail\<close> works on files and on the OAuth libraries.  The outcome of each
  of its external steps, at the time of the call, is a field of \<open>auth_env\<close>:
  \<open>os.path.exists\<close> of the two paths, unpickling the token file, \<open>creds.refresh\<close>
  (the credentials after the refresh), the interactive flow, writing the token file, and
  \<open>build('gmail', 'v1', credentials=creds)\<close>.
\<close>

record creds =
  valid :: bool
  expired :: bool
  refresh_token :: "pystr option"

record auth_env =
  token_exists :: bool
  load_token :: "exn + creds option"
  refresh :: "creds \<Rightarrow> exn + creds"
  credentials_exists :: bool
  run_flow :: "exn + creds"
  save_token :: "creds \<Rightarrow> exn option"
  build :: "creds option \<Rightarrow> exn + gmail_service"

record server_state =
  service :: "gmail_service option"

definition credentials_not_found :: exn where
  "credentials_not_found =
     Exn ''FileNotFoundError''
       (asc ''Credenciais n'' @ [227] @ asc ''o encontradas em credentials/credentials.json'')"

text \<open>The credentials obtained when the stored ones are missing or not valid.\<close>

definition acquire_creds :: "auth_env \<Rightarrow> creds option \<Rightarrow> exn + creds" where
  "acquire_creds env cr =
     (case (case cr of
              Some c \<Rightarrow>
                if expired c \<and> refresh_token c \<noteq> None \<and> refresh_token c \<noteq> Some []
                then Some c else None
            | None \<Rightarrow> None) of
        Some c \<Rightarrow> refresh env c
      | None \<Rightarrow>
          if \<not> credentials_exists env then Inl credentials_not_found
          else run_flow env)"

text \<open>The body of the \<open>try\<close> of \<open>_initialize_gmail\<close>, up to the service it builds.\<close>

definition initialize_body :: "auth_env \<Rightarrow> exn + gmail_service" where
  "initialize_body env =
     (case (if token_exists env then load_token env else Inr None) of
        Inl e \<Rightarrow> Inl e
      | Inr cr \<Rightarrow>
          if (case cr of None \<Rightarrow> True | Some c \<Rightarrow> \<not> valid c) then
            (case acquire_creds env cr of
               Inl e \<Rightarrow> Inl e
             | Inr c \<Rightarrow>
                 (case save_token env c of
                    Some e \<Rightarrow> Inl e
                  | None \<Rightarrow> build env (Some c)))
          else build env cr)"

definition initialize_gmail :: "auth_env \<Rightarrow> server_state \<Rightarrow> exn + server_state" where
  "initialize_gmail env st =
     (case initialize_body env of
        Inr s \<Rightarrow> Inr (st\<lparr>service := Some s\<rparr>)
      | Inl e \<Rightarrow> Inl (Exn ''Exception'' (asc ''Erro ao inicializar Gmail: '' @ exn_str e)))"

text \<open>
  The argument mapping of a call, typed as the advertised schemas type it: the three keys
  the dispatcher reads, each of which may be absent.  The mapping itself may be absent
  (\<open>None\<close>).
\<close>

record arguments =
  count :: "int option"
  query :: "pystr option"
  message_id :: "pystr option"

definition no_arguments :: arguments where
  "no_arguments = \<lparr>count = None, query = None, message_id = None\<rparr>"

text \<open>
  A text block carries \<open>json.dumps(obj, indent=2, ensure_ascii=...)\<close>.  The serialiser is
  a library function; the block keeps the value and the flag it is applied to.
\<close>

datatype json_text = json_dumps (ensure_ascii: bool) (obj: jval)

datatype text_content = TextContent (type': pystr) (text': json_text)

text \<open>
  \<open>handle_list_tools\<close>: the four tool descriptors the server advertises, with their
  input schemas.
\<close>

datatype tool = Tool (tool_name: pystr) (description: pystr) (inputSchema: jval)

definition count_schema :: "pystr \<Rightarrow> int \<Rightarrow> pystr \<times> jval" where
  "count_schema descr dflt =
     (asc ''count'',
      JObj [(asc ''type'', JStr (asc ''integer'')),
            (asc ''description'', JStr descr),
            (asc ''default'', JInt dflt)])"

definition handle_list_tools :: "tool list" where
  "handle_list_tools =
     [Tool (asc ''get_recent_emails'') (asc ''Busca emails recentes da caixa de entrada'')
        (JObj [(asc ''type'', JStr (asc ''object'')),
               (asc ''properties'',
                JObj [count_schema
                        (asc ''N'' @ [250] @ asc ''mero de emails para buscar (padr'' @ [227]
                         @ asc ''o: 5)'') 5])]),
      Tool (asc ''get_unread_emails'') (asc ''Busca emails n'' @ [227] @ asc ''o lidos'')
        (JObj [(asc ''type'', JStr (asc ''object'')),
               (asc ''properties'',
                JObj [count_schema
                        (asc ''N'' @ [250] @ asc ''mero m'' @ [225] @ asc ''ximo de emails n''
                         @ [227] @ asc ''o lidos (padr'' @ [227] @ asc ''o: 10)'') 10])]),
      Tool (asc ''search_emails'') (asc ''Busca emails usando query do Gmail'')
        (JObj [(asc ''type'', JStr (asc ''object'')),
               (asc ''properties'',
                JObj [(asc ''query'',
                       JObj [(asc ''type'', JStr (asc ''string'')),
                             (asc ''description'',
                              JStr (asc ''Query de busca do Gmail (ex: 'from:pessoa@email.com', 'subject:reuni''
                                    @ [227] @ asc ''o')''))]),
                      count_schema
                        (asc ''N'' @ [250] @ asc ''mero m'' @ [225]
                         @ asc ''ximo de emails para retornar (padr'' @ [227] @ asc ''o: 10)'') 10]),
               (asc ''required'', JList [JStr (asc ''query'')])]),
      Tool (asc ''get_email_details'')
        (asc ''Busca detalhes completos de um email espec'' @ [237] @ asc ''fico'')
        (JObj [(asc ''type'', JStr (asc ''object'')),
               (asc ''properties'',
                JObj [(asc ''message_id'',
                       JObj [(asc ''type'', JStr (asc ''string'')),
                             (asc ''description'', JStr (asc ''ID da mensagem no Gmail''))])]),
               (asc ''required'', JList [JStr (asc ''message_id'')])])]"

text \<open>The \<open>if\<close>/\<open>elif\<close> chain inside the \<open>try\<close> of \<open>handle_call_tool\<close>.\<close>

definition tool_result :: "gmail_service option \<Rightarrow> pystr \<Rightarrow> arguments \<Rightarrow> exn + jval" where
  "tool_result svc nm arguments =
     (if nm = asc ''get_recent_emails'' then
        Inr (srv_get_recent_emails svc (case count arguments of None \<Rightarrow> 5 | Some c \<Rightarrow> c))
      else if nm = asc ''get_unread_emails'' then
        Inr (srv_get_unread_emails svc (case count arguments of None \<Rightarrow> 10 | Some c \<Rightarrow> c))
      else if nm = asc ''search_emails'' then
        Inr (srv_search_emails svc
               (case query arguments of None \<Rightarrow> [] | Some q \<Rightarrow> q)
               (case count arguments of None \<Rightarrow> 10 | Some c \<Rightarrow> c))
      else if nm = asc ''get_email_details'' then
        Inr (srv_get_email_details svc
               (case message_id arguments of None \<Rightarrow> [] | Some i \<Rightarrow> i))
      else Inr (error_dict (asc ''Ferramenta desconhecida: '' @ nm)))"

text \<open>
  The head of \<open>handle_call_tool\<close>: \<open>if not self.service: await
  self._initialize_gmail()\<close>.  It stands before the \<open>try\<close>, so what the
  initialisation raises leaves \<open>handle_call_tool\<close>.
\<close>

definition ensure_service :: "auth_env \<Rightarrow> server_state \<Rightarrow> exn + server_state" where
  "ensure_service env st = (if service st = None then initialize_gmail env st else Inr st)"

text \<open>
  \<open>handle_call_tool\<close> returns the content blocks and the server state, or raises.  A
  missing or empty argument mapping becomes the empty one.
\<close>

definition handle_call_tool ::
  "auth_env \<Rightarrow> server_state \<Rightarrow> pystr \<Rightarrow> arguments option
   \<Rightarrow> exn + (text_content list \<times> server_state)" where
  "handle_call_tool env st nm arguments =
     (let arguments = (case arguments of None \<Rightarrow> no_arguments | Some a \<Rightarrow> a) in
      case ensure_service env st of
        Inl e \<Rightarrow> Inl e
      | Inr st' \<Rightarrow>
          (case tool_result (service st') nm arguments of
             Inr result \<Rightarrow> Inr ([TextContent (asc ''text'') (json_dumps False result)], st')
           | Inl e \<Rightarrow>
               Inr ([TextContent (asc ''text'')
                       (json_dumps True
                          (error_dict (asc ''Erro ao executar '' @ nm @ asc '': '' @ exn_str e)))],
                    st')))"

section \<open>The client\<close>

text \<open>
  The session object of the protocol library is given by what its three calls do: raise
  or return.  A content block is a text block or a block of another class, which has no
  \<open>text\<close> attribute.  The environment of the client gives the outcome of entering the
  two contexts of \<open>connect\<close>, of closing the exit stack, and \<open>json.loads\<close>.  What the
  methods print is not part of the model.
\<close>

datatype content_block = TextBlock pystr | OtherBlock string

record session_obj =
  initialize :: "exn option"
  list_tools :: "exn + pystr list"
  call_tool :: "pystr \<Rightarrow> arguments \<Rightarrow> exn + content_block list"

datatype resource = StdioTransport | SessionContext

record client_env =
  stdio_client :: "pystr \<Rightarrow> exn option"
  client_session :: "exn + session_obj"
  aclose :: "exn option"
  json_loads :: "pystr \<Rightarrow> exn + jval"

record client =
  server_script_path :: pystr
  session :: "session_obj option"
  exit_stack :: "resource list"
  connected :: bool

definition GmailMCPClient :: "pystr \<Rightarrow> client" where
  "GmailMCPClient path =
     \<lparr>server_script_path = path, session = None, exit_stack = [], connected = False\<rparr>"

text \<open>
  \<open>connect\<close> catches every exception and returns \<open>False\<close>; the state reached at the
  point of the failure stays.
\<close>

definition connect :: "client_env \<Rightarrow> client \<Rightarrow> exn + (bool \<times> client)" where
  "connect env c =
     (case stdio_client env (server_script_path c) of
        Some e \<Rightarrow> Inr (False, c)
      | None \<Rightarrow>
          (let c1 = c\<lparr>exit_stack := exit_stack c @ [StdioTransport]\<rparr> in
           case client_session env of
             Inl e \<Rightarrow> Inr (False, c1)
           | Inr s \<Rightarrow>
               (let c2 = c1\<lparr>session := Some s, exit_stack := exit_stack c1 @ [SessionContext]\<rparr> in
                case initialize s of
                  Some e \<Rightarrow> Inr (False, c2)
                | None \<Rightarrow>
                    (case list_tools s of
                       Inl e \<Rightarrow> Inr (False, c2)
                     | Inr available_tools \<Rightarrow> Inr (True, c2\<lparr>connected := True\<rparr>)))))"


definition not_connected :: exn where
  "not_connected =
     Exn ''Exception'' (asc ''Cliente MCP n'' @ [227] @ asc ''o est'' @ [225] @ asc '' conectado'')"

text \<open>
  The part of the \<open>try\<close> shared by the four tool methods after \<open>call_tool\<close> has
  returned: the first block's text is parsed, an empty content is an error dictionary.
\<close>

definition decode_content :: "client_env \<Rightarrow> content_block list \<Rightarrow> exn + jval" where
  "decode_content env content =
     (if content \<noteq> [] \<and> 0 < length content then
        (case content ! 0 of
           TextBlock response_text \<Rightarrow> json_loads env response_text
         | OtherBlock cls \<Rightarrow>
             Inl (Exn ''AttributeError''
                    ([39] @ asc cls @ [39] @ asc '' object has no attribute ''
                     @ [39] @ asc ''text'' @ [39])))
      else Inr (error_dict (asc ''Resposta vazia do servidor MCP'')))"

definition call_and_decode ::
  "client_env \<Rightarrow> session_obj \<Rightarrow> pystr \<Rightarrow> arguments \<Rightarrow> exn + jval" where
  "call_and_decode env s tool args =
     (case call_tool s tool args of
        Inl e \<Rightarrow> Inl e
      | Inr content \<Rightarrow> decode_content env content)"

text \<open>
  The four tool methods.  The guard \<open>if not self.connected or not self.session: raise
  Exception(...)\<close> is the first \<open>case\<close>: a session is used only when the client is
  connected and has one.  Inside the \<open>try\<close> every exception becomes an \<open>error\<close>
  dictionary that the method returns.
\<close>

definition get_recent_emails :: "client_env \<Rightarrow> client \<Rightarrow> int \<Rightarrow> exn + jval" where
  "get_recent_emails env c n =
     (case (if \<not> connected c then None else session c) of
        None \<Rightarrow> Inl not_connected
      | Some s \<Rightarrow>
          (case call_and_decode env s (asc ''get_recent_emails'')
                  (no_arguments\<lparr>count := Some n\<rparr>) of
             Inr r \<Rightarrow> Inr r
           | Inl e \<Rightarrow> Inr (error_dict (asc ''Erro ao chamar get_recent_emails: '' @ exn_str e))))"

definition get_unread_emails :: "client_env \<Rightarrow> client \<Rightarrow> int \<Rightarrow> exn + jval" where
  "get_unread_emails env c n =
     (case (if \<not> connected c then None else session c) of
        None \<Rightarrow> Inl not_connected
      | Some s \<Rightarrow>
          (case call_and_decode env s (asc ''get_unread_emails'')
                  (no_arguments\<lparr>count := Some n\<rparr>) of
             Inr r \<Rightarrow> Inr r
           | Inl e \<Rightarrow> Inr (error_dict (asc ''Erro ao chamar get_unread_emails: '' @ exn_str e))))"

definition search_emails :: "client_env \<Rightarrow> client \<Rightarrow> pystr \<Rightarrow> int \<Rightarrow> exn + jval" where
  "search_emails env c q n =
     (case (if \<not> connected c then None else session c) of
        None \<Rightarrow> Inl not_connected
      | Some s \<Rightarrow>
          (case call_and_decode env s (asc ''search_emails'')
                  (no_arguments\<lparr>query := Some q, count := Some n\<rparr>) of
             Inr r \<Rightarrow> Inr r
           | Inl e \<Rightarrow> Inr (error_dict (asc ''Erro ao chamar search_emails: '' @ exn_str e))))"

definition get_email_details :: "client_env \<Rightarrow> client \<Rightarrow> pystr \<Rightarrow> exn + jval" where
  "get_email_details env c i =
     (case (if \<not> connected c then None else session c) of
        None \<Rightarrow> Inl not_connected
      | Some s \<Rightarrow>
          (case call_and_decode env s (asc ''get_email_details'')
                  (no_arguments\<lparr>message_id := Some i\<rparr>) of
             Inr r \<Rightarrow> Inr r
           | Inl e \<Rightarrow> Inr (error_dict (asc ''Erro ao chamar get_email_details: '' @ exn_str e))))"

section \<open>The algorithms as the specification words them\<close>

text \<open>
  Decoding as the specification has it: URL-safe base64 to UTF-8 text, then trimmed.
\<close>

definition decode_trim :: "pystr \<Rightarrow> exn + pystr" where
  "decode_trim d = (case b64_utf8 d of Inl e \<Rightarrow> Inl e | Inr t \<Rightarrow> Inr (strip t))"

text \<open>
  The extraction algorithm in the specification's words: a payload without parts is
  decoded if it is \<open>text/plain\<close> and has data; otherwise the children are examined in
  order: a \<open>text/plain\<close> child with inline data is decoded and the scan stops; a child
  with sub-parts is recursed into and the scan stops on a non-empty result; otherwise the
  next child is examined.
\<close>

fun spec_extract_body :: "part \<Rightarrow> exn + pystr"
  and spec_scan :: "part list \<Rightarrow> exn + pystr" where
  "spec_extract_body (Part mt hs bd None) =
     (case (if mt = asc ''text/plain'' then data bd else None) of
        Some d \<Rightarrow> decode_trim d
      | None \<Rightarrow> Inr [])"
| "spec_extract_body (Part mt hs bd (Some ps)) = spec_scan ps"
| "spec_scan [] = Inr []"
| "spec_scan (c # cs) =
     (case (if mimeType c = asc ''text/plain'' then data (body c) else None) of
        Some d \<Rightarrow> decode_trim d
      | None \<Rightarrow>
          if parts c \<noteq> None then
            (case spec_extract_body c of
               Inl e \<Rightarrow> Inl e
             | Inr r \<Rightarrow> if r \<noteq> [] then Inr r else spec_scan cs)
          else spec_scan cs)"

text \<open>
  The same algorithm with the one change the code makes: a \<open>text/plain\<close> child without
  inline data is passed over, whether or not it has sub-parts; only a child of another
  type is recursed into.
\<close>

fun amended_extract_body :: "part \<Rightarrow> exn + pystr"
  and amended_scan :: "part list \<Rightarrow> exn + pystr" where
  "amended_extract_body (Part mt hs bd None) =
     (case (if mt = asc ''text/plain'' then data bd else None) of
        Some d \<Rightarrow> decode_trim d
      | None \<Rightarrow> Inr [])"
| "amended_extract_body (Part mt hs bd (Some ps)) = amended_scan ps"
| "amended_scan [] = Inr []"
| "amended_scan (c # cs) =
     (if mimeType c = asc ''text/plain'' then
        (case data (body c) of
           Some d \<Rightarrow> decode_trim d
         | None \<Rightarrow> amended_scan cs)
      else if parts c \<noteq> None then
        (case amended_extract_body c of
           Inl e \<Rightarrow> Inl e
         | Inr r \<Rightarrow> if r \<noteq> [] then Inr r else amended_scan cs)
      else amended_scan cs)"

text \<open>
  The result list of a bulk fetch as the specification has it: the details of the listed
  messages, in the order of the listing, without those whose detail fetch failed.
\<close>

definition successful_details :: "gmail_service \<Rightarrow> msg_ref list \<Rightarrow> jval list" where
  "successful_details s ms =
     List.map_filter
       (\<lambda>m. case email_details_body (Some s) (ref_id m) of Inr d \<Rightarrow> Some d | Inl e \<Rightarrow> None) ms"

section \<open>Example inputs\<close>

text \<open>
  A payload whose only child is a \<open>text/plain\<close> part that has no inline data but a
  sub-part of its own.
\<close>

definition plain_container :: part where
  "plain_container =
     Part (asc ''multipart/mixed'') None \<lparr>data = None\<rparr>
       (Some [Part (asc ''text/plain'') None \<lparr>data = None\<rparr>
                (Some [Part (asc ''text/plain'') None \<lparr>data = Some (asc ''SGVsbG8='')\<rparr> None])])"

text \<open>
  The second payload of the specification's test list: a \<open>multipart/alternative\<close>
  child holding only \<open>text/html\<close>, then a \<open>text/plain\<close> child with data \<open>Cmk=\<close>.
\<close>

definition alternative_then_plain :: part where
  "alternative_then_plain =
     Part (asc ''multipart/mixed'') None \<lparr>data = None\<rparr>
       (Some [Part (asc ''multipart/alternative'') None \<lparr>data = None\<rparr>
                (Some [Part (asc ''text/html'') None \<lparr>data = Some (asc ''PHA-b2k8L3A-'')\<rparr> None]),
              Part (asc ''text/plain'') None \<lparr>data = Some (asc ''Cmk='')\<rparr> None])"

text \<open>
  A backend that lists two messages for every query and count, and whose second message
  cannot be fetched.
\<close>

definition example_message :: message where
  "example_message =
     \<lparr>payload = Part (asc ''text/plain'')
                  (Some [\<lparr>name = asc ''Subject'', value = asc ''Hi''\<rparr>])
                  \<lparr>data = Some (asc ''SGVsbG8='')\<rparr> None,
      threadId = asc ''t1'', snippet = Some (asc ''Hello''), labelIds = Some [asc ''INBOX'']\<rparr>"

definition example_listing :: list_response where
  "example_listing = \<lparr>messages = Some [\<lparr>ref_id = asc ''m1''\<rparr>, \<lparr>ref_id = asc ''m2''\<rparr>]\<rparr>"

definition example_service :: gmail_service where
  "example_service =
     \<lparr>messages_list = (\<lambda>q n. Inr example_listing),
      messages_get = (\<lambda>i. if i = asc ''m2'' then Inl (Exn ''HttpError'' (asc ''404''))
                           else Inr example_message)\<rparr>"

definition example_email :: jval where
  "example_email =
     email_dict (asc ''m1'') example_message
       (collect_headers [\<lparr>name = asc ''Subject'', value = asc ''Hi''\<rparr>] Map.empty)
       (asc ''Hello'')"

text \<open>A server without token file and without client-secret file.\<close>

definition no_credentials_env :: auth_env where
  "no_credentials_env =
     \<lparr>token_exists = False, load_token = Inr None, refresh = (\<lambda>c. Inr c),
      credentials_exists = False,
      run_flow = Inl (Exn ''FileNotFoundError'' (asc ''credentials/credentials.json'')),
      save_token = (\<lambda>c. None), build = (\<lambda>c. Inr example_service)\<rparr>"

definition ready_server :: server_state where
  "ready_server = \<lparr>service = Some example_service\<rparr>"

text \<open>
  A session whose every call fails in the transport, a client environment that reaches
  it, one whose server process cannot be started, and the client connected to the session.
\<close>

definition connection_closed :: exn where
  "connection_closed = Exn ''ConnectionError'' (asc ''connection closed'')"

definition broken_session :: session_obj where
  "broken_session =
     \<lparr>initialize = None, list_tools = Inr (map tool_name handle_list_tools),
      call_tool = (\<lambda>tool args. Inl connection_closed)\<rparr>"

definition example_client_env :: client_env where
  "example_client_env =
     \<lparr>stdio_client = (\<lambda>path. None), client_session = Inr broken_session, aclose = None,
      json_loads = (\<lambda>t. Inr (JStr t))\<rparr>"




definition script_path :: pystr where
  "script_path = asc ''src/mcp/gmail_server.py''"

definition ready_client :: client where
  "ready_client =
     \<lparr>server_script_path = script_path, session = Some broken_session,
      exit_stack = [StdioTransport, SessionContext], connected = True\<rparr>"

section \<open>MIME body extraction\<close>

lemmas decoder_defs =
  b64_utf8_def urlsafe_b64decode_def urlsafe_translate_def b64_value_def decode_utf8_def
  strip_def isspace_def asc_def

lemma strip_Nil: "strip [] = []"
  by (simp add: strip_def)

lemma strip_strip: "strip (strip s) = strip s"
proof (cases "dropWhile isspace s = []")
  case True
  show ?thesis unfolding strip_def True by simp
next
  case False
  define t where "t = dropWhile isspace s"
  define u where "u = dropWhile isspace (rev t)"
  from False have t: "t \<noteq> []" "\<not> isspace (hd t)"
    by (simp_all add: t_def hd_dropWhile)
  then have "\<not> (\<forall>x\<in>set (rev t). isspace x)"
    using hd_in_set[of t] by auto
  then have u: "u \<noteq> []"
    by (simp add: u_def dropWhile_eq_Nil_conv)
  then have hu: "\<not> isspace (hd u)"
    by (simp add: u_def hd_dropWhile)
  have "last u = last (rev t)"
    unfolding u_def using t by (intro dropWhile_last[of "hd t"]) simp_all
  then have "last u = hd t"
    using t by (simp add: last_rev)
  with u t have "\<not> isspace (hd (rev u))"
    by (simp add: hd_rev)
  with u have 1: "dropWhile isspace (rev u) = rev u"
    by (cases "rev u") simp_all
  from u hu have 2: "dropWhile isspace u = u"
    by (cases u) simp_all
  have "strip s = rev u"
    by (simp add: strip_def t_def u_def)
  with 1 2 show ?thesis
    by (simp add: strip_def)
qed

lemma extract_body_stripped: "extract_body p = Inr b \<Longrightarrow> strip b = b"
  by (cases p rule: extract_body.cases)
     (auto simp: strip_strip strip_Nil split: sum.splits option.splits if_splits)

text \<open>
  Claim C2, with the scan rule as the code has it.  \<open>_extract_body\<close> computes exactly
  this: a payload without parts is decoded only if it is \<open>text/plain\<close> with data; else
  its children are scanned in order, a \<open>text/plain\<close> child with inline data is decoded
  and ends the scan, a \<open>text/plain\<close> child without inline data is passed over, a child
  of another type with sub-parts is recursed into and ends the scan if that yields a
  non-empty text, and any other child is passed over.  Decoding is URL-safe base64, then
  UTF-8, then trimming; the result is the text of one part, never a concatenation.
\<close>

theorem extract_body_algorithm: "extract_body p = amended_extract_body p"
proof -
  have "extract_body p = amended_extract_body p"
    and "b = [] \<longrightarrow>
      (case extract_parts ps b of Inl e \<Rightarrow> Inl e | Inr r \<Rightarrow> Inr (strip r)) = amended_scan ps"
    for p ps b
  proof (induction p and ps b rule: extract_body_extract_parts.induct)
    case (1 mt hs bd ps)
    then show ?case by simp
  next
    case (2 mt hs bd)
    show ?case by (simp add: decode_trim_def strip_Nil split: option.splits sum.splits)
  next
    case (3 b)
    show ?case by (simp add: strip_Nil)
  next
    case (4 p rest b)
    show ?case
    proof
      assume b: "b = []"
      show "(case extract_parts (p # rest) b of Inl e \<Rightarrow> Inl e | Inr r \<Rightarrow> Inr (strip r))
            = amended_scan (p # rest)"
      proof (cases "mimeType p = asc ''text/plain''")
        case True
        with 4(1) b show ?thesis
          by (auto simp: decode_trim_def split: option.splits sum.splits)
      next
        case False
        show ?thesis
        proof (cases "parts p = None")
          case True
          with False 4(4) b show ?thesis by simp
        next
          case np: False
          from 4(2)[OF False np] have eq: "extract_body p = amended_extract_body p" .
          show ?thesis
          proof (cases "extract_body p")
            case (Inl e)
            with eq have "amended_extract_body p = Inl e" by simp
            with False np Inl show ?thesis by simp
          next
            case (Inr b')
            from Inr have st: "strip b' = b'" by (rule extract_body_stripped)
            from eq Inr have am: "amended_extract_body p = Inr b'" by simp
            show ?thesis
            proof (cases "b' = []")
              case True
              with 4(3)[OF False np Inr] have
                "(case extract_parts rest b' of Inl e \<Rightarrow> Inl e | Inr r \<Rightarrow> Inr (strip r))
                 = amended_scan rest"
                by simp
              with True False np Inr am show ?thesis by simp
            next
              case nb: False
              with False np Inr am st show ?thesis by simp
            qed
          qed
        qed
      qed
    qed
  qed
  then show ?thesis by simp
qed

text \<open>
  With the scan rule as the specification words it (any child with sub-parts is recursed
  into), the two differ: the code passes over a \<open>text/plain\<close> child without data and
  never looks at its sub-part, the specification's algorithm decodes that sub-part.
\<close>

theorem extract_body_plain_container_counterexample:
  "extract_body plain_container = Inr []
   \<and> spec_extract_body plain_container = Inr (asc ''Hello'')"
  by (simp add: plain_container_def decode_trim_def decoder_defs)

text \<open>
  Claim C3, with the second value as the code computes it.  A single-part
  \<open>text/plain\<close> payload with data \<open>SGVsbG8=\<close> yields \<open>Hello\<close>.  A multipart payload
  whose first child is \<open>multipart/alternative\<close> holding only \<open>text/html\<close> and whose
  second child is \<open>text/plain\<close> with data \<open>Cmk=\<close> yields \<open>i\<close>: the data decodes to a
  line feed followed by \<open>i\<close>, and the line feed is trimmed.
\<close>

theorem extract_body_examples:
  "extract_body (Part (asc ''text/plain'') hs \<lparr>data = Some (asc ''SGVsbG8='')\<rparr> None)
     = Inr (asc ''Hello'')
   \<and> b64_utf8 (asc ''Cmk='') = Inr [10, 105]
   \<and> extract_body
       (Part mt hs \<lparr>data = d\<rparr>
          (Some [Part (asc ''multipart/alternative'') hs1 \<lparr>data = d1\<rparr>
                   (Some [Part (asc ''text/html'') hs2 \<lparr>data = d2\<rparr> None]),
                 Part (asc ''text/plain'') hs3 \<lparr>data = Some (asc ''Cmk='')\<rparr> None]))
     = Inr (asc ''i'')"
  by (simp add: decoder_defs)

text \<open>The specification expects \<open>oi\<close> for the second payload.\<close>

theorem extract_body_oi_counterexample:
  "extract_body alternative_then_plain \<noteq> Inr (asc ''oi'')"
  by (simp add: alternative_then_plain_def decoder_defs)


section \<open>The bulk tools of the server\<close>

lemma keys_email_dict: "asc ''error'' \<notin> set (keys (email_dict i m h b))"
  by (simp add: email_dict_def asc_def)

lemma truthy_email_dict: "truthy (email_dict i m h b)"
  by (simp add: email_dict_def)

lemma details_Inr:
  "email_details_body svc i = Inr d \<Longrightarrow>
     srv_get_email_details svc i = d \<and> truthy d \<and> asc ''error'' \<notin> set (keys d)"
  by (auto simp: srv_get_email_details_def email_details_body_def keys_email_dict
        truthy_email_dict Let_def split: sum.splits)

lemma details_Inl:
  "email_details_body svc i = Inl e \<Longrightarrow>
     asc ''error'' \<in> set (keys (srv_get_email_details svc i))"
  by (simp add: srv_get_email_details_def error_dict_def)

text \<open>The loop appends to \<open>emails\<close> exactly the details whose fetch did not fail.\<close>

lemma fetch_emails_eq:
  "fetch_emails (Some s) ms emails = emails @ successful_details s ms"
proof (induction ms arbitrary: emails)
  case Nil
  show ?case by (simp add: successful_details_def)
next
  case (Cons m ms)
  show ?case
  proof (cases "email_details_body (Some s) (ref_id m)")
    case (Inl e)
    from details_Inl[OF Inl] Inl Cons show ?thesis
      by (simp add: successful_details_def)
  next
    case (Inr d)
    from details_Inr[OF Inr] Inr Cons show ?thesis
      by (simp add: successful_details_def)
  qed
qed

lemma length_successful_details: "length (successful_details s ms) \<le> length ms"
  by (simp add: successful_details_def map_filter_def)

lemma example_body: "extract_body (payload example_message) = Inr (asc ''Hello'')"
  by (simp add: example_message_def decoder_defs)

lemma example_details:
  "email_details_body (Some example_service) (asc ''m1'') = Inr example_email"
  "email_details_body (Some example_service) (asc ''m2'') = Inl (Exn ''HttpError'' (asc ''404''))"
  using example_body
  by (simp_all add: email_details_body_def users_def example_service_def example_email_def
        Let_def asc_def example_message_def)

lemma example_successful:
  "successful_details example_service [\<lparr>ref_id = asc ''m1''\<rparr>, \<lparr>ref_id = asc ''m2''\<rparr>]
     = [example_email]"
  "successful_details example_service [\<lparr>ref_id = asc ''m1''\<rparr>] = [example_email]"
  by (simp_all add: successful_details_def example_details)

lemma example_listed:
  "successful_details example_service (listed example_listing) = [example_email]"
  by (simp add: listed_def example_listing_def example_successful)

text \<open>
  Claim C4, for a count that is not negative.  Given the listing the backend returns for
  the count, \<open>get_recent_emails\<close> returns the success payload with \<open>tool\<close>,
  \<open>success\<close>, \<open>count\<close> and \<open>emails\<close>: the emails are the details of the first
  \<open>count\<close> listed messages, in the order of the listing, without those whose detail
  fetch failed; there are at most \<open>count\<close> of them, and the \<open>count\<close> field is their
  number.
\<close>

theorem recent_emails_payload:
  assumes "0 \<le> n" and "messages_list s None n = Inr result"
  shows "srv_get_recent_emails (Some s) n =
           JObj [(asc ''tool'', JStr (asc ''get_recent_emails'')),
                 (asc ''success'', JBool True),
                 (asc ''count'',
                  JInt (int (length (successful_details s (take (nat n) (listed result)))))),
                 (asc ''emails'', JList (successful_details s (take (nat n) (listed result))))]
         \<and> int (length (successful_details s (take (nat n) (listed result)))) \<le> n"
proof -
  have "length (successful_details s (take (nat n) (listed result))) \<le> nat n"
    using length_successful_details[of s "take (nat n) (listed result)"] by simp
  with assms show ?thesis
    by (simp add: srv_get_recent_emails_def users_def slice_to_def fetch_emails_eq Let_def)
qed

text \<open>
  The example backend lists two messages and fails to deliver the second: with count 2
  the payload holds the first message only, and a count of 1.
\<close>

theorem recent_emails_payload_witness:
  "(0::int) \<le> 2
   \<and> messages_list example_service None 2 = Inr example_listing
   \<and> srv_get_recent_emails (Some example_service) 2 =
       JObj [(asc ''tool'', JStr (asc ''get_recent_emails'')),
             (asc ''success'', JBool True),
             (asc ''count'', JInt 1),
             (asc ''emails'', JList [example_email])]"
proof -
  have l: "messages_list example_service None 2 = Inr example_listing"
    by (simp add: example_service_def)
  have n: "(0::int) \<le> 2" by simp
  from recent_emails_payload[OF n l] l show ?thesis
    by (simp add: listed_def example_listing_def example_successful)
qed

text \<open>
  A negative count: the slice \<open>messages[:-1]\<close> drops the last listed message and keeps
  the rest, so the payload holds one email, which is more than the count.
\<close>

theorem recent_emails_negative_count_counterexample:
  "srv_get_recent_emails (Some example_service) (- 1) =
     JObj [(asc ''tool'', JStr (asc ''get_recent_emails'')),
           (asc ''success'', JBool True),
           (asc ''count'', JInt 1),
           (asc ''emails'', JList [example_email])]
   \<and> \<not> int (length [example_email]) \<le> - 1"
proof -
  have l: "messages_list example_service None (- 1) = Inr example_listing"
    by (simp add: example_service_def)
  have s: "slice_to (listed example_listing) (- 1) = [\<lparr>ref_id = asc ''m1''\<rparr>]"
    by (simp add: slice_to_def listed_def example_listing_def)
  show ?thesis
    by (simp add: srv_get_recent_emails_def users_def l s fetch_emails_eq example_successful
          Let_def del: fetch_emails.simps)
qed

text \<open>
  Claim C5.  For every query string \<open>q\<close>, the empty one included, \<open>search_emails\<close>
  hands \<open>q\<close> itself to the list call of the backend; nothing rejects it.  When that
  call succeeds the payload has the fields \<open>tool\<close>, \<open>success\<close>, \<open>count\<close> and
  \<open>emails\<close> of every bulk tool (and the query), built from the listing the backend
  returned for \<open>q\<close>; when it fails the payload is the error dictionary with the
  backend's failure.
\<close>

theorem search_emails_payload:
  "(messages_list s (Some q) n = Inr result \<longrightarrow>
      srv_search_emails (Some s) q n =
        JObj [(asc ''tool'', JStr (asc ''search_emails'')),
              (asc ''query'', JStr q),
              (asc ''success'', JBool True),
              (asc ''count'', JInt (int (length (successful_details s (listed result))))),
              (asc ''emails'', JList (successful_details s (listed result)))])
   \<and> (messages_list s (Some q) n = Inl e \<longrightarrow>
      srv_search_emails (Some s) q n =
        error_dict (asc ''Erro na busca '' @ [39] @ q @ [39] @ asc '': '' @ exn_str e))"
  by (simp add: srv_search_emails_def users_def fetch_emails_eq Let_def)

text \<open>The empty query on the example backend.\<close>

theorem search_emails_payload_witness:
  "messages_list example_service (Some []) 10 = Inr example_listing
   \<and> srv_search_emails (Some example_service) [] 10 =
       JObj [(asc ''tool'', JStr (asc ''search_emails'')),
             (asc ''query'', JStr []),
             (asc ''success'', JBool True),
             (asc ''count'', JInt 1),
             (asc ''emails'', JList [example_email])]"
proof -
  have l: "messages_list example_service (Some []) 10 = Inr example_listing"
    by (simp add: example_service_def)
  from search_emails_payload[of example_service "[]" 10 example_listing] l show ?thesis
    by (simp add: listed_def example_listing_def example_successful)
qed

section \<open>The dispatcher\<close>

text \<open>
  Claim C1.  The claim has every exception of a tool call, the failure of the lazy
  initialisation included, turned into an error payload.  The initialisation is awaited
  before the \<open>try\<close> of \<open>handle_call_tool\<close>: on a server without token file and
  without client-secret file the first call raises the exception of
  \<open>_initialize_gmail\<close> instead of returning a payload.
\<close>

theorem dispatch_init_failure_raises:
  "handle_call_tool no_credentials_env \<lparr>service = None\<rparr> (asc ''get_recent_emails'')
     (Some (no_arguments\<lparr>count := Some 5\<rparr>))
   = Inl (Exn ''Exception''
            (asc ''Erro ao inicializar Gmail: Credenciais n'' @ [227]
             @ asc ''o encontradas em credentials/credentials.json''))"
  by (simp add: handle_call_tool_def ensure_service_def initialize_gmail_def
        initialize_body_def acquire_creds_def no_credentials_env_def credentials_not_found_def
        asc_def)

text \<open>
  The same for every tool name and every failure of the initialisation; once the service
  exists, or its initialisation succeeds, a call always returns one text block.
\<close>

lemma handle_call_tool_init_raises:
  "service st = None \<Longrightarrow> initialize_body env = Inl e \<Longrightarrow>
   handle_call_tool env st nm args
     = Inl (Exn ''Exception'' (asc ''Erro ao inicializar Gmail: '' @ exn_str e))"
  by (simp add: handle_call_tool_def ensure_service_def initialize_gmail_def)

lemma handle_call_tool_returns:
  "ensure_service env st = Inr st' \<Longrightarrow>
   \<exists>b v. handle_call_tool env st nm args = Inr ([TextContent (asc ''text'') (json_dumps b v)], st')"
  by (auto simp: handle_call_tool_def split: sum.splits)

lemma tool_names:
  "map tool_name handle_list_tools =
     [asc ''get_recent_emails'', asc ''get_unread_emails'', asc ''search_emails'',
      asc ''get_email_details'']"
  by (simp add: handle_list_tools_def)

text \<open>
  Claim C6, with the message of the code and for a server whose mail service is there
  (it exists already, or its initialisation succeeds).  A call whose tool name is none
  of the four advertised names returns a result of one text block, the error payload
  \<open>Ferramenta desconhecida: {name}\<close>.
\<close>

theorem unknown_tool_payload:
  assumes "nm \<notin> set (map tool_name handle_list_tools)"
    and "ensure_service env st = Inr st'"
  shows "handle_call_tool env st nm args =
           Inr ([TextContent (asc ''text'')
                   (json_dumps False (error_dict (asc ''Ferramenta desconhecida: '' @ nm)))],
                st')"
  using assms by (simp add: handle_call_tool_def tool_result_def tool_names)

theorem unknown_tool_payload_witness:
  "asc ''foo'' \<notin> set (map tool_name handle_list_tools)
   \<and> ensure_service no_credentials_env ready_server = Inr ready_server
   \<and> handle_call_tool no_credentials_env ready_server (asc ''foo'') None =
       Inr ([TextContent (asc ''text'')
               (json_dumps False (error_dict (asc ''Ferramenta desconhecida: foo'')))],
            ready_server)"
proof -
  have n: "asc ''foo'' \<notin> set (map tool_name handle_list_tools)"
    by (simp add: tool_names asc_def)
  have e: "ensure_service no_credentials_env ready_server = Inr ready_server"
    by (simp add: ensure_service_def ready_server_def)
  have "asc ''Ferramenta desconhecida: '' @ asc ''foo'' = asc ''Ferramenta desconhecida: foo''"
    by (simp add: asc_def)
  with unknown_tool_payload[OF n e, of None] n e show ?thesis
    by simp
qed

text \<open>The payload is not the text \<open>unknown tool: foo\<close> of the specification.\<close>

theorem unknown_tool_payload_counterexample:
  "handle_call_tool no_credentials_env ready_server (asc ''foo'') None
   \<noteq> Inr ([TextContent (asc ''text'') (json_dumps False (error_dict (asc ''unknown tool: foo'')))],
           ready_server)"
  by (simp add: handle_call_tool_def ensure_service_def ready_server_def tool_result_def
        error_dict_def asc_def)

lemma handle_call_tool_eval:
  "ensure_service env st = Inr st' \<Longrightarrow> tool_result (service st') nm a = Inr v \<Longrightarrow>
   handle_call_tool env st nm (Some a)
     = Inr ([TextContent (asc ''text'') (json_dumps False v)], st')"
  by (simp add: handle_call_tool_def)

text \<open>
  Claim C10.  \<open>handle_call_tool\<close> validates nothing.  A missing argument mapping is the
  empty one.  On a server whose mail service is there, a call without \<open>count\<close> runs the
  tool with 5 (\<open>get_recent_emails\<close>) or 10 (\<open>get_unread_emails\<close>,
  \<open>search_emails\<close>); a \<open>search_emails\<close> call without \<open>query\<close> and a
  \<open>get_email_details\<close> call without \<open>message_id\<close> run the tool with the empty
  string, although the advertised schemas of these two tools list the key under
  \<open>required\<close>.
\<close>

theorem dispatch_defaults:
  assumes "ensure_service env st = Inr st'"
  shows "handle_call_tool env st nm None = handle_call_tool env st nm (Some no_arguments)
   \<and> handle_call_tool env st (asc ''get_recent_emails'') (Some (a\<lparr>count := None\<rparr>))
     = Inr ([TextContent (asc ''text'')
               (json_dumps False (srv_get_recent_emails (service st') 5))], st')
   \<and> handle_call_tool env st (asc ''get_unread_emails'') (Some (a\<lparr>count := None\<rparr>))
     = Inr ([TextContent (asc ''text'')
               (json_dumps False (srv_get_unread_emails (service st') 10))], st')
   \<and> handle_call_tool env st (asc ''search_emails'') (Some (a\<lparr>query := Some q, count := None\<rparr>))
     = Inr ([TextContent (asc ''text'')
               (json_dumps False (srv_search_emails (service st') q 10))], st')
   \<and> handle_call_tool env st (asc ''search_emails'') (Some (a\<lparr>query := None, count := Some n\<rparr>))
     = Inr ([TextContent (asc ''text'')
               (json_dumps False (srv_search_emails (service st') [] n))], st')
   \<and> handle_call_tool env st (asc ''search_emails'') (Some (a\<lparr>query := None, count := None\<rparr>))
     = Inr ([TextContent (asc ''text'')
               (json_dumps False (srv_search_emails (service st') [] 10))], st')
   \<and> handle_call_tool env st (asc ''get_email_details'') (Some (a\<lparr>message_id := None\<rparr>))
     = Inr ([TextContent (asc ''text'')
               (json_dumps False (srv_get_email_details (service st') []))], st')
   \<and> map (\<lambda>t. get_key (inputSchema t) (asc ''required'')) handle_list_tools
     = [None, None, Some (JList [JStr (asc ''query'')]), Some (JList [JStr (asc ''message_id'')])]"
proof -
  have 1: "handle_call_tool env st nm None = handle_call_tool env st nm (Some no_arguments)"
    by (simp add: handle_call_tool_def)
  have 2: "tool_result (service st') (asc ''get_recent_emails'') (a\<lparr>count := None\<rparr>)
           = Inr (srv_get_recent_emails (service st') 5)"
    by (simp add: tool_result_def)
  have 3: "tool_result (service st') (asc ''get_unread_emails'') (a\<lparr>count := None\<rparr>)
           = Inr (srv_get_unread_emails (service st') 10)"
    by (simp add: tool_result_def asc_def)
  have 4: "tool_result (service st') (asc ''search_emails'') (a\<lparr>query := Some q, count := None\<rparr>)
           = Inr (srv_search_emails (service st') q 10)"
    by (simp add: tool_result_def asc_def)
  have 5: "tool_result (service st') (asc ''search_emails'') (a\<lparr>query := None, count := Some n\<rparr>)
           = Inr (srv_search_emails (service st') [] n)"
    by (simp add: tool_result_def asc_def)
  have 8: "tool_result (service st') (asc ''search_emails'') (a\<lparr>query := None, count := None\<rparr>)
           = Inr (srv_search_emails (service st') [] 10)"
    by (simp add: tool_result_def asc_def)
  have 6: "tool_result (service st') (asc ''get_email_details'') (a\<lparr>message_id := None\<rparr>)
           = Inr (srv_get_email_details (service st') [])"
    by (simp add: tool_result_def asc_def)
  have 7: "map (\<lambda>t. get_key (inputSchema t) (asc ''required'')) handle_list_tools
     = [None, None, Some (JList [JStr (asc ''query'')]), Some (JList [JStr (asc ''message_id'')])]"
    by (simp add: handle_list_tools_def asc_def)
  from 1 7 handle_call_tool_eval[OF assms 2] handle_call_tool_eval[OF assms 3]
    handle_call_tool_eval[OF assms 4] handle_call_tool_eval[OF assms 5]
    handle_call_tool_eval[OF assms 6] handle_call_tool_eval[OF assms 8]
  show ?thesis by blast
qed

text \<open>
  On the example server a \<open>search_emails\<close> call without any argument searches with
  the empty query and count 10.
\<close>

theorem dispatch_defaults_witness:
  "ensure_service no_credentials_env ready_server = Inr ready_server
   \<and> handle_call_tool no_credentials_env ready_server (asc ''search_emails'') None
     = Inr ([TextContent (asc ''text'')
               (json_dumps False
                  (JObj [(asc ''tool'', JStr (asc ''search_emails'')),
                         (asc ''query'', JStr []),
                         (asc ''success'', JBool True),
                         (asc ''count'', JInt 1),
                         (asc ''emails'', JList [example_email])]))],
            ready_server)"
proof -
  have e: "ensure_service no_credentials_env ready_server = Inr ready_server"
    by (simp add: ensure_service_def ready_server_def)
  have a: "no_arguments\<lparr>query := None, count := None\<rparr> = no_arguments"
    by (simp add: no_arguments_def)
  have l: "messages_list example_service (Some []) 10 = Inr example_listing"
    by (simp add: example_service_def)
  have s: "srv_search_emails (service ready_server) [] 10 =
             JObj [(asc ''tool'', JStr (asc ''search_emails'')),
                   (asc ''query'', JStr []),
                   (asc ''success'', JBool True),
                   (asc ''count'', JInt 1),
                   (asc ''emails'', JList [example_email])]"
    by (simp add: srv_search_emails_def users_def ready_server_def l fetch_emails_eq Let_def
          example_listed)
  from dispatch_defaults[OF e, of "asc ''search_emails''" no_arguments]
  have "handle_call_tool no_credentials_env ready_server (asc ''search_emails'') None
          = handle_call_tool no_credentials_env ready_server (asc ''search_emails'')
              (Some no_arguments)"
    and "handle_call_tool no_credentials_env ready_server (asc ''search_emails'')
           (Some (no_arguments\<lparr>query := None, count := None\<rparr>))
          = Inr ([TextContent (asc ''text'')
                   (json_dumps False (srv_search_emails (service ready_server) [] 10))],
                 ready_server)"
    by blast+
  with e s a show ?thesis by simp
qed

section \<open>The client\<close>

lemma connect_example:
  "connect example_client_env (GmailMCPClient script_path) = Inr (True, ready_client)"
  by (simp add: connect_def example_client_env_def GmailMCPClient_def broken_session_def
        ready_client_def)



lemma broken_call: "call_tool broken_session tool args = Inl connection_closed"
  by (simp add: broken_session_def)

text \<open>
  Claim C7, as the code handles a failure inside an issued call.  When the client is
  connected and the call of the session raises, for a connection failure or a timeout as
  for anything else, each of the four tool methods catches the exception and returns
  the dictionary \<open>{error: Erro ao chamar <tool>: <description>}\<close> as its ordinary
  result; nothing is raised to the caller.
\<close>

theorem transport_failure_returned:
  assumes "connected c" and "session c = Some s"
  shows "(call_tool s (asc ''get_recent_emails'') (no_arguments\<lparr>count := Some n\<rparr>) = Inl e \<longrightarrow>
            get_recent_emails env c n
              = Inr (error_dict (asc ''Erro ao chamar get_recent_emails: '' @ exn_str e)))
       \<and> (call_tool s (asc ''get_unread_emails'') (no_arguments\<lparr>count := Some n\<rparr>) = Inl e \<longrightarrow>
            get_unread_emails env c n
              = Inr (error_dict (asc ''Erro ao chamar get_unread_emails: '' @ exn_str e)))
       \<and> (call_tool s (asc ''search_emails'') (no_arguments\<lparr>query := Some q, count := Some n\<rparr>)
              = Inl e \<longrightarrow>
            search_emails env c q n
              = Inr (error_dict (asc ''Erro ao chamar search_emails: '' @ exn_str e)))
       \<and> (call_tool s (asc ''get_email_details'') (no_arguments\<lparr>message_id := Some i\<rparr>) = Inl e \<longrightarrow>
            get_email_details env c i
              = Inr (error_dict (asc ''Erro ao chamar get_email_details: '' @ exn_str e)))"
  using assms
  by (simp add: get_recent_emails_def get_unread_emails_def search_emails_def
        get_email_details_def call_and_decode_def)

theorem transport_failure_returned_witness:
  "connected ready_client \<and> session ready_client = Some broken_session
   \<and> call_tool broken_session (asc ''search_emails'')
        (no_arguments\<lparr>query := Some (asc ''is:unread''), count := Some 10\<rparr>)
       = Inl connection_closed
   \<and> search_emails example_client_env ready_client (asc ''is:unread'') 10
       = Inr (error_dict (asc ''Erro ao chamar search_emails: '' @ exn_str connection_closed))"
proof -
  have c: "connected ready_client" and s: "session ready_client = Some broken_session"
    by (simp_all add: ready_client_def)
  from transport_failure_returned[OF c s, where e = connection_closed
      and q = "asc ''is:unread''" and n = 10 and env = example_client_env]
    broken_call c s
  show ?thesis by simp
qed

text \<open>
  A session that fails with a connection error: \<open>get_recent_emails\<close> returns a
  dictionary.
\<close>

theorem transport_failure_counterexample:
  "call_tool broken_session (asc ''get_recent_emails'') (no_arguments\<lparr>count := Some 5\<rparr>)
     = Inl connection_closed
   \<and> get_recent_emails example_client_env ready_client 5
     = Inr (error_dict (asc ''Erro ao chamar get_recent_emails: connection closed''))"
  by (simp add: get_recent_emails_def call_and_decode_def ready_client_def broken_session_def
        connection_closed_def asc_def)







end
